theory Spec2Isabelle
  imports Main "HOL-Library.AList"
begin

section \<open>Person data store: data model\<close>

text \<open>
  The application is a Flask service over two tables, \<open>User\<close> and \<open>Person\<close>.
  A request body is a JSON object; its values are modelled by \<open>json\<close> (null, integers
  and strings, the types of the declared columns). A Python dict is an association list
  with distinct keys, in insertion order. Requests are served one at a time; the routing
  of URLs, the cookie that carries the session and the hashing of passwords are outside
  the source and enter as arguments.
\<close>

datatype json = JNull | JInt int | JStr string

type_synonym dict = "(string \<times> json) list"

text \<open>
  \<open>request.get_json()\<close>: the members of the JSON object are inserted into a dict one
  by one, a later member with the same key replacing the value of the earlier one.
\<close>

definition get_json :: "(string \<times> json) list \<Rightarrow> dict" where
  "get_json members = fold (\<lambda>(k, v) d. AList.update k v d) members []"

text \<open>\<open>data[key]\<close> and \<open>key in data\<close> (\<open>None\<close>: the key is absent, a KeyError on indexing).\<close>

definition dict_lookup :: "dict \<Rightarrow> string \<Rightarrow> json option" where
  "dict_lookup data key = map_of data key"

text \<open>\<open>data.get(key)\<close> and \<open>data.get(key, default)\<close>.\<close>

definition dict_get :: "dict \<Rightarrow> string \<Rightarrow> json \<Rightarrow> json" where
  "dict_get data key dflt = (case map_of data key of None \<Rightarrow> dflt | Some v \<Rightarrow> v)"

subsection \<open>Permission constants\<close>

definition READ_PERMISSION :: string where "READ_PERMISSION = ''read''"
definition CREATE_PERMISSION :: string where "CREATE_PERMISSION = ''create''"
definition UPDATE_PERMISSION :: string where "UPDATE_PERMISSION = ''update''"
definition DELETE_PERMISSION :: string where "DELETE_PERMISSION = ''delete''"

subsection \<open>Models\<close>

text \<open>
  The rows of the two tables, with the declared column types: \<open>Integer\<close> is \<open>int\<close>,
  \<open>String\<close> is \<open>string\<close>, a column without \<open>nullable=False\<close> is an option.
\<close>

record user =
  u_id :: int
  u_username :: string
  u_password_hash :: string
  u_permissions :: string

record person =
  p_id :: int
  p_name :: string
  p_age :: int
  p_email :: string
  p_phone :: "string option"
  p_address :: "string option"
  p_created_by :: "int option"

record db =
  users :: "user list"
  persons :: "person list"

text \<open>The Flask session of one client: the three keys that \<open>login\<close> writes.\<close>

record session =
  s_user_id :: "int option"
  s_username :: "string option"
  s_permissions :: "string option"

text \<open>\<open>str.split(',')\<close>: every comma separates; the result is never empty.\<close>

fun split_comma :: "string \<Rightarrow> string list" where
  "split_comma [] = [[]]"
| "split_comma (c # cs) =
     (if c = CHR '','' then [] # split_comma cs
      else (case split_comma cs of
              [] \<Rightarrow> [[c]]
            | t # ts \<Rightarrow> (c # t) # ts))"

definition has_permission :: "user \<Rightarrow> string \<Rightarrow> bool" where
  "has_permission u permission = (permission \<in> set (split_comma (u_permissions u)))"

subsection \<open>Responses\<close>

text \<open>
  Exceptions that no handler catches (HTTP 500). \<open>IntegrityError\<close> is the database
  refusing a commit (NOT NULL, UNIQUE, primary key); the transaction is then rolled back.
  \<open>OverflowError\<close> is the driver refusing to bind a Python integer that is no signed
  64-bit integer; nothing is written then.
\<close>

datatype exn = KeyError string | AttributeError | IntegrityError | OverflowError

text \<open>
  The responses of the routes, by shape. \<open>Unmodelled\<close> is no response of the
  program: it marks the requests on which the model stops, because what happens next is
  decided outside the source. These are: a value of a JSON type other than the column's
  declared type reaching the database driver or the password hashing library (the
  engine converts and stores it); a key of an update body that is no column (the ORM
  decides whether the object has such an attribute and what assigning it does); and an
  insert into a table whose largest key is the largest 64-bit integer (the engine picks
  a key at random). The database paired with \<open>Unmodelled\<close> has no meaning, a run of
  requests ends there, and every statement below excludes that outcome or holds of the
  program whatever it does there.
\<close>

datatype response =
    ErrorJson nat string
  | MessageJson string
  | UserJson nat string dict
  | PersonMessageJson nat string dict
  | PersonsJson "dict list"
  | PersonJson dict
  | PermissionsJson string "string list"
  | NotFound
  | Unhandled exn
  | Unmodelled

text \<open>The integers that the database driver binds: signed 64-bit.\<close>

definition int64 :: "int \<Rightarrow> bool" where
  "int64 n = (- (2 ^ 63) \<le> n \<and> n < 2 ^ 63)"

definition bindable :: "json option \<Rightarrow> bool" where
  "bindable v = (case v of Some (JInt n) \<Rightarrow> int64 n | _ \<Rightarrow> True)"

subsection \<open>Queries\<close>

text \<open>\<open>User.query.get(user_id)\<close> and \<open>Person.query.get_or_404(id)\<close>: lookup by primary key.\<close>

definition User_query_get :: "db \<Rightarrow> int \<Rightarrow> user option" where
  "User_query_get d user_id = find (\<lambda>u. u_id u = user_id) (users d)"

definition Person_query_get :: "db \<Rightarrow> int \<Rightarrow> person option" where
  "Person_query_get d pid = find (\<lambda>p. p_id p = pid) (persons d)"

text \<open>
  \<open>Person.query.filter_by(email=v).first()\<close>. A string is compared with the column;
  \<open>None\<close> becomes \<open>IS NULL\<close>, which no row of a NOT NULL column satisfies; an
  integer is bound by the driver if it has 64 bits and is then compared by the engine's
  own conversion (\<open>Foreign\<close>: the model stops).
\<close>

datatype 'a query_result = Found 'a | NoRow | Overflowed | Foreign

definition Person_filter_by_email :: "db \<Rightarrow> json \<Rightarrow> person query_result" where
  "Person_filter_by_email d v =
     (case v of
        JStr e \<Rightarrow> (case find (\<lambda>p. p_email p = e) (persons d) of
                     None \<Rightarrow> NoRow | Some p \<Rightarrow> Found p)
      | JNull \<Rightarrow> NoRow
      | JInt n \<Rightarrow> if int64 n then Foreign else Overflowed)"

definition User_filter_by_username :: "db \<Rightarrow> json \<Rightarrow> user query_result" where
  "User_filter_by_username d v =
     (case v of
        JStr n \<Rightarrow> (case find (\<lambda>u. u_username u = n) (users d) of
                     None \<Rightarrow> NoRow | Some u \<Rightarrow> Found u)
      | JNull \<Rightarrow> NoRow
      | JInt n \<Rightarrow> if int64 n then Foreign else Overflowed)"

text \<open>
  The key the database gives a row inserted without one (an INTEGER PRIMARY KEY of
  SQLite): 1 in an empty table, otherwise the largest key plus one.
\<close>

definition next_rowid :: "int list \<Rightarrow> int" where
  "next_rowid ids = (case ids of [] \<Rightarrow> 1 | i # rest \<Rightarrow> fold max rest i + 1)"

subsection \<open>The permission decorator\<close>

text \<open>
  \<open>permission_required(permission)(f)\<close>. \<open>not user_id\<close> holds for a missing key and
  for the id 0.
\<close>

definition permission_required ::
  "string \<Rightarrow> (session \<Rightarrow> db \<Rightarrow> 'a \<Rightarrow> response \<times> db) \<Rightarrow> session \<Rightarrow> db \<Rightarrow> 'a \<Rightarrow> response \<times> db" where
  "permission_required permission f sess d args =
     (case s_user_id sess of
        None \<Rightarrow> (ErrorJson 401 ''Authentication required'', d)
      | Some user_id \<Rightarrow>
          if user_id = 0 then (ErrorJson 401 ''Authentication required'', d)
          else (case User_query_get d user_id of
                  None \<Rightarrow> (ErrorJson 403 (''Permission denied. Requires: '' @ permission), d)
                | Some user \<Rightarrow>
                    if \<not> has_permission user permission
                    then (ErrorJson 403 (''Permission denied. Requires: '' @ permission), d)
                    else f sess d args))"

subsection \<open>Listing\<close>

definition opt_str :: "string option \<Rightarrow> json" where
  "opt_str s = (case s of None \<Rightarrow> JNull | Some x \<Rightarrow> JStr x)"

definition opt_int :: "int option \<Rightarrow> json" where
  "opt_int i = (case i of None \<Rightarrow> JNull | Some x \<Rightarrow> JInt x)"

text \<open>The dict that every route builds from a person.\<close>

definition person_data :: "person \<Rightarrow> dict" where
  "person_data p =
     [(''id'', JInt (p_id p)), (''name'', JStr (p_name p)), (''age'', JInt (p_age p)),
      (''email'', JStr (p_email p)), (''phone'', opt_str (p_phone p)),
      (''address'', opt_str (p_address p)), (''created_by'', opt_int (p_created_by p))]"

text \<open>The loop of \<open>get_persons\<close>: \<open>persons_data.append(person_data)\<close> for each person.\<close>

fun persons_loop :: "person list \<Rightarrow> dict list \<Rightarrow> dict list" where
  "persons_loop [] persons_data = persons_data"
| "persons_loop (p # ps) persons_data = persons_loop ps (persons_data @ [person_data p])"

definition get_persons_view :: "session \<Rightarrow> db \<Rightarrow> unit \<Rightarrow> response \<times> db" where
  "get_persons_view sess d args = (PersonsJson (persons_loop (persons d) []), d)"

definition get_persons :: "session \<Rightarrow> db \<Rightarrow> response \<times> db" where
  "get_persons sess d = permission_required READ_PERMISSION get_persons_view sess d ()"

subsection \<open>Model objects and the commit\<close>

text \<open>
  A loaded or newly built \<open>Person\<close> object: its column attributes by name. Python keeps
  whatever value is assigned; the declared types and constraints act at the commit.
  \<open>hasattr\<close> holds of the seven columns. For any other name the source does not say
  whether the object has such an attribute (the ORM gives it many, some of which break
  the object when assigned): \<open>hasattr\<close> is then \<open>None\<close> and the model stops.
\<close>

type_synonym model_object = "string \<rightharpoonup> json"

definition hasattr :: "model_object \<Rightarrow> string \<Rightarrow> bool option" where
  "hasattr obj key = (if obj key \<noteq> None then Some True else None)"

definition setattr :: "model_object \<Rightarrow> string \<Rightarrow> json \<Rightarrow> model_object" where
  "setattr obj key v = obj(key \<mapsto> v)"

definition person_instance :: "person \<Rightarrow> model_object" where
  "person_instance p = map_of (person_data p)"

text \<open>
  What the flush makes of an attribute: a value of the column's type, a constraint
  violation (\<open>None\<close> in a NOT NULL column), or a value of another type. The driver
  binds the values before the engine checks anything, so an integer that is no 64-bit
  integer is an \<open>Overflow\<close> whatever the other attributes are.
\<close>

datatype 'a flushed = Row 'a | Violation | Overflow | ForeignValue

definition int_not_null :: "json option \<Rightarrow> int flushed" where
  "int_not_null v =
     (case v of Some (JInt n) \<Rightarrow> Row n | Some (JStr _) \<Rightarrow> ForeignValue | _ \<Rightarrow> Violation)"

definition str_not_null :: "json option \<Rightarrow> string flushed" where
  "str_not_null v =
     (case v of Some (JStr s) \<Rightarrow> Row s | Some (JInt _) \<Rightarrow> ForeignValue | _ \<Rightarrow> Violation)"

definition int_nullable :: "json option \<Rightarrow> int option flushed" where
  "int_nullable v =
     (case v of Some (JInt n) \<Rightarrow> Row (Some n) | Some (JStr _) \<Rightarrow> ForeignValue | _ \<Rightarrow> Row None)"

definition str_nullable :: "json option \<Rightarrow> string option flushed" where
  "str_nullable v =
     (case v of Some (JStr s) \<Rightarrow> Row (Some s) | Some (JInt _) \<Rightarrow> ForeignValue | _ \<Rightarrow> Row None)"

definition person_columns :: "string list" where
  "person_columns = [''id'', ''name'', ''age'', ''email'', ''phone'', ''address'', ''created_by'']"

definition person_row :: "model_object \<Rightarrow> person flushed" where
  "person_row obj =
     (if \<not> list_all (\<lambda>c. bindable (obj c)) person_columns then Overflow else
      case int_not_null (obj ''id'') of Violation \<Rightarrow> Violation | Overflow \<Rightarrow> Overflow
      | ForeignValue \<Rightarrow> ForeignValue | Row i \<Rightarrow>
     (case str_not_null (obj ''name'') of Violation \<Rightarrow> Violation | Overflow \<Rightarrow> Overflow
      | ForeignValue \<Rightarrow> ForeignValue | Row n \<Rightarrow>
     (case int_not_null (obj ''age'') of Violation \<Rightarrow> Violation | Overflow \<Rightarrow> Overflow
      | ForeignValue \<Rightarrow> ForeignValue | Row a \<Rightarrow>
     (case str_not_null (obj ''email'') of Violation \<Rightarrow> Violation | Overflow \<Rightarrow> Overflow
      | ForeignValue \<Rightarrow> ForeignValue | Row e \<Rightarrow>
     (case str_nullable (obj ''phone'') of Violation \<Rightarrow> Violation | Overflow \<Rightarrow> Overflow
      | ForeignValue \<Rightarrow> ForeignValue | Row ph \<Rightarrow>
     (case str_nullable (obj ''address'') of Violation \<Rightarrow> Violation | Overflow \<Rightarrow> Overflow
      | ForeignValue \<Rightarrow> ForeignValue | Row ad \<Rightarrow>
     (case int_nullable (obj ''created_by'') of Violation \<Rightarrow> Violation | Overflow \<Rightarrow> Overflow
      | ForeignValue \<Rightarrow> ForeignValue | Row cb \<Rightarrow>
        Row \<lparr>p_id = i, p_name = n, p_age = a, p_email = e, p_phone = ph, p_address = ad,
             p_created_by = cb\<rparr>)))))))"

text \<open>The primary key and \<open>unique=True\<close> on \<open>email\<close>, checked against the given rows.\<close>

definition violates_unique :: "person list \<Rightarrow> person \<Rightarrow> bool" where
  "violates_unique rows r = (find (\<lambda>p. p_id p = p_id r \<or> p_email p = p_email r) rows \<noteq> None)"

text \<open>
  \<open>db.session.add(person); db.session.commit()\<close>: the database assigns the key, one
  more than the largest; past the largest 64-bit integer the engine picks a key at
  random and the model stops.
\<close>

definition commit_insert :: "db \<Rightarrow> model_object \<Rightarrow> (db \<times> person) flushed" where
  "commit_insert d obj =
     (if \<not> int64 (next_rowid (map p_id (persons d))) then ForeignValue else
      case person_row (obj(''id'' \<mapsto> JInt (next_rowid (map p_id (persons d))))) of
        Violation \<Rightarrow> Violation
      | Overflow \<Rightarrow> Overflow
      | ForeignValue \<Rightarrow> ForeignValue
      | Row r \<Rightarrow>
          if violates_unique (persons d) r then Violation
          else Row (d\<lparr>persons := persons d @ [r]\<rparr>, r))"

text \<open>
  \<open>db.session.commit()\<close> after the attributes of the row with key \<open>pid\<close> were set. The
  table is kept in the order of the keys, in which \<open>Person.query.all()\<close> reads it: a
  row whose key changed moves to its place.
\<close>

definition commit_update :: "db \<Rightarrow> int \<Rightarrow> model_object \<Rightarrow> (db \<times> person) flushed" where
  "commit_update d pid obj =
     (case person_row obj of
        Violation \<Rightarrow> Violation
      | Overflow \<Rightarrow> Overflow
      | ForeignValue \<Rightarrow> ForeignValue
      | Row r \<Rightarrow>
          if violates_unique (filter (\<lambda>p. p_id p \<noteq> pid) (persons d)) r then Violation
          else Row (d\<lparr>persons := insort_key p_id r
                                     (filter (\<lambda>p. p_id p \<noteq> pid) (persons d))\<rparr>, r))"

subsection \<open>Registration, login, logout\<close>

text \<open>
  \<open>generate_password_hash\<close> and \<open>check_password_hash\<close> belong to werkzeug; the routes
  take them as the parameters \<open>gph\<close> and \<open>cph\<close>. In \<open>register\<close> the user is committed
  after the three reads of the body: a \<open>None\<close> username violates NOT NULL, and a
  \<open>None\<close> in \<open>permissions\<close> leaves the column to its declared default
  \<open>READ_PERMISSION\<close>.
\<close>

definition user_data :: "user \<Rightarrow> dict" where
  "user_data u =
     [(''id'', JInt (u_id u)), (''username'', JStr (u_username u)),
      (''permissions'', JStr (u_permissions u))]"

definition register :: "(string \<Rightarrow> string) \<Rightarrow> db \<Rightarrow> (string \<times> json) list \<Rightarrow> response \<times> db" where
  "register gph d body =
     (let data = get_json body in
      case dict_lookup data ''username'' of
        None \<Rightarrow> (Unhandled (KeyError ''username''), d)
      | Some username \<Rightarrow>
          (case User_filter_by_username d username of
             Foreign \<Rightarrow> (Unmodelled, d)
           | Overflowed \<Rightarrow> (Unhandled OverflowError, d)
           | Found _ \<Rightarrow> (ErrorJson 400 ''Username already exists'', d)
           | NoRow \<Rightarrow>
               (case dict_lookup data ''password'' of
                  None \<Rightarrow> (Unhandled (KeyError ''password''), d)
                | Some JNull \<Rightarrow> (Unmodelled, d)
                | Some (JInt _) \<Rightarrow> (Unmodelled, d)
                | Some (JStr password) \<Rightarrow>
                    (case dict_get data ''permissions'' (JStr READ_PERMISSION) of
                       JInt n \<Rightarrow> (if int64 n then Unmodelled else Unhandled OverflowError, d)
                     | permissions \<Rightarrow>
                         (case username of
                            JStr name \<Rightarrow>
                              let user = \<lparr>u_id = next_rowid (map u_id (users d)),
                                          u_username = name,
                                          u_password_hash = gph password,
                                          u_permissions =
                                            (case permissions of JStr s \<Rightarrow> s | _ \<Rightarrow> READ_PERMISSION)\<rparr>
                              in (UserJson 201 ''User registered successfully'' (user_data user),
                                  d\<lparr>users := users d @ [user]\<rparr>)
                          | _ \<Rightarrow> (Unhandled IntegrityError, d))))))"

definition login ::
  "(string \<Rightarrow> string \<Rightarrow> bool) \<Rightarrow> session \<Rightarrow> db \<Rightarrow> (string \<times> json) list \<Rightarrow> response \<times> session" where
  "login cph sess d body =
     (let data = get_json body in
      case dict_lookup data ''username'' of
        None \<Rightarrow> (Unhandled (KeyError ''username''), sess)
      | Some username \<Rightarrow>
          (case User_filter_by_username d username of
             Foreign \<Rightarrow> (Unmodelled, sess)
           | Overflowed \<Rightarrow> (Unhandled OverflowError, sess)
           | NoRow \<Rightarrow> (ErrorJson 401 ''Invalid credentials'', sess)
           | Found user \<Rightarrow>
               (case dict_lookup data ''password'' of
                  None \<Rightarrow> (Unhandled (KeyError ''password''), sess)
                | Some JNull \<Rightarrow> (Unmodelled, sess)
                | Some (JInt _) \<Rightarrow> (Unmodelled, sess)
                | Some (JStr password) \<Rightarrow>
                    if \<not> cph (u_password_hash user) password
                    then (ErrorJson 401 ''Invalid credentials'', sess)
                    else (UserJson 200 ''Logged in successfully'' (user_data user),
                          sess\<lparr>s_user_id := Some (u_id user),
                               s_username := Some (u_username user),
                               s_permissions := Some (u_permissions user)\<rparr>))))"

text \<open>\<open>session.clear()\<close>.\<close>

definition logout :: "session \<Rightarrow> response \<times> session" where
  "logout sess =
     (MessageJson ''Logged out successfully'',
      \<lparr>s_user_id = None, s_username = None, s_permissions = None\<rparr>)"

definition get_user_permissions :: "session \<Rightarrow> db \<Rightarrow> response" where
  "get_user_permissions sess d =
     (case s_user_id sess of
        None \<Rightarrow> ErrorJson 401 ''Not authenticated''
      | Some i \<Rightarrow>
          (case User_query_get d i of
             None \<Rightarrow> Unhandled AttributeError
           | Some user \<Rightarrow> PermissionsJson (u_username user) (split_comma (u_permissions user))))"

subsection \<open>Single-record routes\<close>

text \<open>
  The test \<open>person.created_by != user_id and not user.has_permission('admin')\<close> of the
  three single-record routes. \<open>and\<close> evaluates its right operand only when the left one
  holds; there \<open>user\<close> is dereferenced, an AttributeError when no such user exists.
\<close>

definition not_creator_nor_admin :: "session \<Rightarrow> db \<Rightarrow> person \<Rightarrow> exn + bool" where
  "not_creator_nor_admin sess d person =
     (let user_id = s_user_id sess;
          user = (case user_id of None \<Rightarrow> None | Some i \<Rightarrow> User_query_get d i)
      in if p_created_by person \<noteq> user_id
         then (case user of
                 None \<Rightarrow> Inl AttributeError
               | Some u \<Rightarrow> Inr (\<not> has_permission u ''admin''))
         else Inr False)"

definition get_person_view :: "session \<Rightarrow> db \<Rightarrow> int \<Rightarrow> response \<times> db" where
  "get_person_view sess d pid =
     (case Person_query_get d pid of
        None \<Rightarrow> (NotFound, d)
      | Some person \<Rightarrow>
          (case not_creator_nor_admin sess d person of
             Inl e \<Rightarrow> (Unhandled e, d)
           | Inr True \<Rightarrow> (ErrorJson 403 ''Access denied to this resource'', d)
           | Inr False \<Rightarrow> (PersonJson (person_data person), d)))"

definition get_person :: "session \<Rightarrow> db \<Rightarrow> int \<Rightarrow> response \<times> db" where
  "get_person sess d pid = permission_required READ_PERMISSION get_person_view sess d pid"

definition create_person_view :: "session \<Rightarrow> db \<Rightarrow> (string \<times> json) list \<Rightarrow> response \<times> db" where
  "create_person_view sess d body =
     (let data = get_json body; user_id = s_user_id sess in
      case dict_lookup data ''email'' of
        None \<Rightarrow> (Unhandled (KeyError ''email''), d)
      | Some email \<Rightarrow>
          (case Person_filter_by_email d email of
             Foreign \<Rightarrow> (Unmodelled, d)
           | Overflowed \<Rightarrow> (Unhandled OverflowError, d)
           | Found _ \<Rightarrow> (ErrorJson 400 ''Email already exists'', d)
           | NoRow \<Rightarrow>
               (case dict_lookup data ''name'' of
                  None \<Rightarrow> (Unhandled (KeyError ''name''), d)
                | Some name \<Rightarrow>
                    (case dict_lookup data ''age'' of
                       None \<Rightarrow> (Unhandled (KeyError ''age''), d)
                     | Some age \<Rightarrow>
                         let person = [''id'' \<mapsto> JNull, ''name'' \<mapsto> name, ''age'' \<mapsto> age,
                                       ''email'' \<mapsto> email,
                                       ''phone'' \<mapsto> dict_get data ''phone'' JNull,
                                       ''address'' \<mapsto> dict_get data ''address'' JNull,
                                       ''created_by'' \<mapsto> opt_int user_id]
                         in (case commit_insert d person of
                               Violation \<Rightarrow> (Unhandled IntegrityError, d)
                             | Overflow \<Rightarrow> (Unhandled OverflowError, d)
                             | ForeignValue \<Rightarrow> (Unmodelled, d)
                             | Row (d', r) \<Rightarrow>
                                 (PersonMessageJson 201 ''Person created successfully''
                                    (person_data r), d'))))))"

definition create_person :: "session \<Rightarrow> db \<Rightarrow> (string \<times> json) list \<Rightarrow> response \<times> db" where
  "create_person sess d body =
     permission_required CREATE_PERMISSION create_person_view sess d body"

text \<open>The loop of \<open>update_person\<close> over \<open>data.items()\<close>.\<close>

fun update_loop :: "(string \<times> json) list \<Rightarrow> model_object \<Rightarrow> model_object option" where
  "update_loop [] person = Some person"
| "update_loop ((key, v) # items) person =
     (case hasattr person key of
        None \<Rightarrow> None
      | Some True \<Rightarrow> update_loop items (setattr person key v)
      | Some False \<Rightarrow> update_loop items person)"

definition update_person_view ::
  "session \<Rightarrow> db \<Rightarrow> int \<times> (string \<times> json) list \<Rightarrow> response \<times> db" where
  "update_person_view sess d args =
     (let pid = fst args; data = get_json (snd args) in
      case Person_query_get d pid of
        None \<Rightarrow> (NotFound, d)
      | Some person \<Rightarrow>
          (case not_creator_nor_admin sess d person of
             Inl e \<Rightarrow> (Unhandled e, d)
           | Inr True \<Rightarrow> (ErrorJson 403 ''Cannot update this person'', d)
           | Inr False \<Rightarrow>
               (case (case dict_lookup data ''email'' of
                        None \<Rightarrow> NoRow
                      | Some email \<Rightarrow>
                          if email \<noteq> JStr (p_email person)
                          then Person_filter_by_email d email else NoRow) of
                  Foreign \<Rightarrow> (Unmodelled, d)
                | Overflowed \<Rightarrow> (Unhandled OverflowError, d)
                | Found _ \<Rightarrow> (ErrorJson 400 ''Email already exists'', d)
                | NoRow \<Rightarrow>
                    (case update_loop data (person_instance person) of
                       None \<Rightarrow> (Unmodelled, d)
                     | Some person' \<Rightarrow>
                         (case commit_update d pid person' of
                            Violation \<Rightarrow> (Unhandled IntegrityError, d)
                          | Overflow \<Rightarrow> (Unhandled OverflowError, d)
                          | ForeignValue \<Rightarrow> (Unmodelled, d)
                          | Row (d', r) \<Rightarrow>
                              (PersonMessageJson 200 ''Person updated successfully''
                                 (person_data r), d'))))))"

definition update_person ::
  "session \<Rightarrow> db \<Rightarrow> int \<Rightarrow> (string \<times> json) list \<Rightarrow> response \<times> db" where
  "update_person sess d pid body =
     permission_required UPDATE_PERMISSION update_person_view sess d (pid, body)"

definition delete_person_view :: "session \<Rightarrow> db \<Rightarrow> int \<Rightarrow> response \<times> db" where
  "delete_person_view sess d pid =
     (case Person_query_get d pid of
        None \<Rightarrow> (NotFound, d)
      | Some person \<Rightarrow>
          (case not_creator_nor_admin sess d person of
             Inl e \<Rightarrow> (Unhandled e, d)
           | Inr True \<Rightarrow> (ErrorJson 403 ''Cannot delete this person'', d)
           | Inr False \<Rightarrow>
               (MessageJson ''Person deleted successfully'',
                d\<lparr>persons := filter (\<lambda>p. p_id p \<noteq> p_id person) (persons d)\<rparr>)))"

definition delete_person :: "session \<Rightarrow> db \<Rightarrow> int \<Rightarrow> response \<times> db" where
  "delete_person sess d pid = permission_required DELETE_PERMISSION delete_person_view sess d pid"

subsection \<open>Status of a response\<close>

text \<open>
  The status code of a response is below 400: \<open>jsonify\<close> without a code is 200,
  \<open>get_or_404\<close> aborts with 404, an unhandled exception is a 500.
\<close>

fun succeeded :: "response \<Rightarrow> bool" where
  "succeeded (ErrorJson code _) = (code < 400)"
| "succeeded (UserJson code _ _) = (code < 400)"
| "succeeded (PersonMessageJson code _ _) = (code < 400)"
| "succeeded (MessageJson _) = True"
| "succeeded (PersonsJson _) = True"
| "succeeded (PersonJson _) = True"
| "succeeded (PermissionsJson _ _) = True"
| "succeeded NotFound = False"
| "succeeded (Unhandled _) = False"
| "succeeded Unmodelled = False"

subsection \<open>Sequences of requests\<close>




definition db_create_all :: db where
  "db_create_all = \<lparr>users = [], persons = []\<rparr>"

subsection \<open>Example data\<close>

text \<open>
  The scenario of the specification: an administrator, a user with \<open>read,create\<close>, a
  user with every permission but \<open>admin\<close>, a user with \<open>admin,read\<close>, and three persons, one of them without a
  creator.
\<close>

definition ex_admin :: user where
  "ex_admin = \<lparr>u_id = 1, u_username = ''admin'', u_password_hash = ''h1'',
               u_permissions = ''read,create,update,delete,admin''\<rparr>"

definition ex_u2 :: user where
  "ex_u2 = \<lparr>u_id = 2, u_username = ''u2'', u_password_hash = ''h2'',
            u_permissions = ''read,create''\<rparr>"

definition ex_u3 :: user where
  "ex_u3 = \<lparr>u_id = 3, u_username = ''u3'', u_password_hash = ''h3'',
            u_permissions = ''read,create,update,delete''\<rparr>"

definition ex_u4 :: user where
  "ex_u4 = \<lparr>u_id = 4, u_username = ''u4'', u_password_hash = ''h4'',
            u_permissions = ''admin,read''\<rparr>"

definition ex_ann :: person where
  "ex_ann = \<lparr>p_id = 1, p_name = ''Ann'', p_age = 30, p_email = ''ann@x.com'',
             p_phone = None, p_address = None, p_created_by = Some 1\<rparr>"

definition ex_bo :: person where
  "ex_bo = \<lparr>p_id = 2, p_name = ''Bo'', p_age = 25, p_email = ''bo@x.com'',
            p_phone = None, p_address = None, p_created_by = Some 3\<rparr>"

definition ex_cy :: person where
  "ex_cy = \<lparr>p_id = 3, p_name = ''Cy'', p_age = 41, p_email = ''cy@x.com'',
            p_phone = Some ''555'', p_address = None, p_created_by = None\<rparr>"

definition ex_db :: db where
  "ex_db = \<lparr>users = [ex_admin, ex_u2, ex_u3, ex_u4], persons = [ex_ann, ex_bo, ex_cy]\<rparr>"

text \<open>The session that \<open>login\<close> leaves for a user, and the session of a client not logged in.\<close>

definition session_of :: "user \<Rightarrow> session" where
  "session_of u = \<lparr>s_user_id = Some (u_id u), s_username = Some (u_username u),
                   s_permissions = Some (u_permissions u)\<rparr>"

definition no_session :: session where
  "no_session = \<lparr>s_user_id = None, s_username = None, s_permissions = None\<rparr>"



definition ex_eli :: person where
  "ex_eli = \<lparr>p_id = 4, p_name = ''Eli'', p_age = 7, p_email = ''eli@x.com'',
             p_phone = None, p_address = None, p_created_by = Some 2\<rparr>"

section \<open>Properties\<close>

lemma persons_loop_map: "persons_loop ps acc = acc @ map person_data ps"
  by (induction ps arbitrary: acc) simp_all

lemma person_data_inj: "person_data p = person_data q \<Longrightarrow> p = q"
  by (cases p, cases q)
     (auto simp: person_data_def opt_str_def opt_int_def split: option.splits)

lemmas ex_defs = ex_admin_def ex_u2_def ex_u3_def ex_u4_def ex_ann_def ex_bo_def ex_cy_def ex_db_def
  session_of_def no_session_def

subsection \<open>The decorator\<close>

lemma permission_required_unauth:
  "s_user_id sess = None \<Longrightarrow>
   permission_required P f sess d a = (ErrorJson 401 ''Authentication required'', d)"
  by (simp add: permission_required_def)

lemma permission_required_denied:
  "s_user_id sess = Some uid \<Longrightarrow> uid \<noteq> 0 \<Longrightarrow> User_query_get d uid = Some u \<Longrightarrow>
   \<not> has_permission u P \<Longrightarrow>
   permission_required P f sess d a = (ErrorJson 403 (''Permission denied. Requires: '' @ P), d)"
  by (simp add: permission_required_def)

lemma permission_required_pass:
  "s_user_id sess = Some uid \<Longrightarrow> uid \<noteq> 0 \<Longrightarrow> User_query_get d uid = Some u \<Longrightarrow>
   has_permission u P \<Longrightarrow>
   permission_required P f sess d a = f sess d a"
  by (simp add: permission_required_def)

subsection \<open>Listing is not filtered by creator\<close>

text \<open>
  Claim C9. For a logged-in user whose stored permissions contain \<open>read\<close>,
  \<open>get_persons\<close> answers with the data of every row of the Person table, in table
  order, whoever created the row; the database is unchanged.
\<close>

theorem get_persons_no_ownership_filter:
  assumes "s_user_id sess = Some uid" and "uid \<noteq> 0"
    and "User_query_get d uid = Some u" and "has_permission u ''read''"
  shows "get_persons sess d = (PersonsJson (map person_data (persons d)), d)"
  using assms
  by (simp add: get_persons_def permission_required_pass [where u = u] READ_PERMISSION_def
      get_persons_view_def persons_loop_map)

theorem get_persons_no_ownership_filter_witness:
  "s_user_id (session_of ex_u2) = Some 2 \<and> (2::int) \<noteq> 0
   \<and> User_query_get ex_db 2 = Some ex_u2 \<and> has_permission ex_u2 ''read''
   \<and> \<not> has_permission ex_u2 ''admin''
   \<and> map p_created_by (persons ex_db) = [Some 1, Some 3, None]
   \<and> get_persons (session_of ex_u2) ex_db
       = (PersonsJson [person_data ex_ann, person_data ex_bo, person_data ex_cy], ex_db)"
proof -
  have h1: "s_user_id (session_of ex_u2) = Some 2" by (simp add: ex_defs)
  have h2: "(2::int) \<noteq> 0" by simp
  have h3: "User_query_get ex_db 2 = Some ex_u2" by (simp add: ex_defs User_query_get_def)
  have h4: "has_permission ex_u2 ''read''" by (simp add: ex_defs has_permission_def)
  have h5: "\<not> has_permission ex_u2 ''admin''" by (simp add: ex_defs has_permission_def)
  have h6: "map p_created_by (persons ex_db) = [Some 1, Some 3, None]" by (simp add: ex_defs)
  have h7: "persons ex_db = [ex_ann, ex_bo, ex_cy]" by (simp add: ex_db_def)
  show ?thesis
    using get_persons_no_ownership_filter [OF h1 h2 h3 h4] h1 h2 h3 h4 h5 h6 h7 by simp
qed

subsection \<open>Order of the checks\<close>

text \<open>
  Claim C2. On each of the five decorated routes the decorator answers first: without a
  \<open>user_id\<close> in the session the answer is 401 ``Authentication required''; with a
  logged-in user whose stored permissions lack the route's permission it is 403
  ``Permission denied. Requires: '' followed by that permission, whatever the record,
  its creator or the \<open>admin\<close> permission; only a user holding the permission reaches
  the view, where the single-record routes test the creator. The database is unchanged
  in the two refusals.
\<close>

theorem guard_order:
  "(s_user_id sess = None \<longrightarrow>
      get_persons sess d = (ErrorJson 401 ''Authentication required'', d)
    \<and> get_person sess d pid = (ErrorJson 401 ''Authentication required'', d)
    \<and> create_person sess d body = (ErrorJson 401 ''Authentication required'', d)
    \<and> update_person sess d pid body = (ErrorJson 401 ''Authentication required'', d)
    \<and> delete_person sess d pid = (ErrorJson 401 ''Authentication required'', d))
   \<and> (s_user_id sess = Some uid \<and> uid \<noteq> 0 \<and> User_query_get d uid = Some u \<longrightarrow>
        (\<not> has_permission u ''read'' \<longrightarrow>
           get_persons sess d = (ErrorJson 403 ''Permission denied. Requires: read'', d)
         \<and> get_person sess d pid = (ErrorJson 403 ''Permission denied. Requires: read'', d))
      \<and> (\<not> has_permission u ''create'' \<longrightarrow>
           create_person sess d body = (ErrorJson 403 ''Permission denied. Requires: create'', d))
      \<and> (\<not> has_permission u ''update'' \<longrightarrow>
           update_person sess d pid body
             = (ErrorJson 403 ''Permission denied. Requires: update'', d))
      \<and> (\<not> has_permission u ''delete'' \<longrightarrow>
           delete_person sess d pid = (ErrorJson 403 ''Permission denied. Requires: delete'', d))
      \<and> (has_permission u ''read'' \<longrightarrow> get_person sess d pid = get_person_view sess d pid)
      \<and> (has_permission u ''update'' \<longrightarrow>
           update_person sess d pid body = update_person_view sess d (pid, body))
      \<and> (has_permission u ''delete'' \<longrightarrow> delete_person sess d pid = delete_person_view sess d pid))"
  by (simp add: get_persons_def get_person_def create_person_def update_person_def
      delete_person_def permission_required_def READ_PERMISSION_def CREATE_PERMISSION_def
      UPDATE_PERMISSION_def DELETE_PERMISSION_def)

theorem guard_order_witness:
  "s_user_id no_session = None
   \<and> delete_person no_session ex_db 1 = (ErrorJson 401 ''Authentication required'', ex_db)
   \<and> s_user_id (session_of ex_u4) = Some 4 \<and> User_query_get ex_db 4 = Some ex_u4
   \<and> has_permission ex_u4 ''admin'' \<and> \<not> has_permission ex_u4 ''delete''
   \<and> delete_person (session_of ex_u4) ex_db 1
        = (ErrorJson 403 ''Permission denied. Requires: delete'', ex_db)
   \<and> has_permission ex_u4 ''read''
   \<and> get_person (session_of ex_u4) ex_db 1 = get_person_view (session_of ex_u4) ex_db 1"
proof -
  have h0: "s_user_id no_session = None" by (simp add: ex_defs)
  have h1: "s_user_id (session_of ex_u4) = Some 4" by (simp add: ex_defs)
  have h2: "User_query_get ex_db 4 = Some ex_u4" by (simp add: ex_defs User_query_get_def)
  have h3: "has_permission ex_u4 ''admin''" by (simp add: ex_defs has_permission_def)
  have h4: "\<not> has_permission ex_u4 ''delete''" by (simp add: ex_defs has_permission_def)
  have h5: "has_permission ex_u4 ''read''" by (simp add: ex_defs has_permission_def)
  show ?thesis
    using guard_order [of no_session ex_db 1 "[]" 0 ex_u4]
      guard_order [of "session_of ex_u4" ex_db 1 "[]" 4 ex_u4] h0 h1 h2 h3 h4 h5
    by simp
qed

subsection \<open>Creator or administrator\<close>





subsection \<open>Registration takes the permissions as given\<close>

text \<open>
  Claim C4. \<open>register\<close> takes no session. For a body with a string username that no
  user has and a string password, a permissions string in the body is stored as it is,
  and a body without the key stores \<open>read\<close>. The witness registers a user whose
  permissions contain \<open>admin\<close> and a token that is no permission at all.
\<close>

theorem register_permissions_verbatim:
  assumes "dict_lookup (get_json body) ''username'' = Some (JStr name)"
    and "find (\<lambda>u. u_username u = name) (users d) = None"
    and "dict_lookup (get_json body) ''password'' = Some (JStr password)"
  shows "(dict_lookup (get_json body) ''permissions'' = Some (JStr perms) \<longrightarrow>
            users (snd (register gph d body))
              = users d @ [\<lparr>u_id = next_rowid (map u_id (users d)), u_username = name,
                             u_password_hash = gph password, u_permissions = perms\<rparr>])
       \<and> (dict_lookup (get_json body) ''permissions'' = None \<longrightarrow>
            users (snd (register gph d body))
              = users d @ [\<lparr>u_id = next_rowid (map u_id (users d)), u_username = name,
                             u_password_hash = gph password, u_permissions = ''read''\<rparr>])"
  using assms
  by (simp add: register_def Let_def User_filter_by_username_def dict_get_def dict_lookup_def
      READ_PERMISSION_def)

theorem register_permissions_verbatim_witness:
  "users (snd (register (\<lambda>p. ''h:'' @ p) db_create_all
       [(''username'', JStr ''eve''), (''password'', JStr ''pw''),
        (''permissions'', JStr ''admin,root, read'')]))
     = [\<lparr>u_id = 1, u_username = ''eve'', u_password_hash = ''h:pw'',
         u_permissions = ''admin,root, read''\<rparr>]
   \<and> has_permission \<lparr>u_id = 1, u_username = ''eve'', u_password_hash = ''h:pw'',
         u_permissions = ''admin,root, read''\<rparr> ''admin''
   \<and> users (snd (register (\<lambda>p. ''h:'' @ p) db_create_all
       [(''username'', JStr ''eve''), (''password'', JStr ''pw'')]))
     = [\<lparr>u_id = 1, u_username = ''eve'', u_password_hash = ''h:pw'',
         u_permissions = ''read''\<rparr>]"
proof -
  let ?b1 = "[(''username'', JStr ''eve''), (''password'', JStr ''pw''),
        (''permissions'', JStr ''admin,root, read'')]"
  let ?b2 = "[(''username'', JStr ''eve''), (''password'', JStr ''pw'')]"
  have a1: "dict_lookup (get_json ?b1) ''username'' = Some (JStr ''eve'')"
    and a3: "dict_lookup (get_json ?b1) ''password'' = Some (JStr ''pw'')"
    and a4: "dict_lookup (get_json ?b1) ''permissions'' = Some (JStr ''admin,root, read'')"
    by (simp_all add: get_json_def dict_lookup_def)
  have b1: "dict_lookup (get_json ?b2) ''username'' = Some (JStr ''eve'')"
    and b3: "dict_lookup (get_json ?b2) ''password'' = Some (JStr ''pw'')"
    and b4: "dict_lookup (get_json ?b2) ''permissions'' = None"
    by (simp_all add: get_json_def dict_lookup_def)
  have a2: "find (\<lambda>u. u_username u = ''eve'') (users db_create_all) = None"
    by (simp add: db_create_all_def)
  have n: "next_rowid (map u_id (users db_create_all)) = 1"
    by (simp add: db_create_all_def next_rowid_def)
  have u: "users db_create_all = []" by (simp add: db_create_all_def)
  have p: "has_permission \<lparr>u_id = 1, u_username = ''eve'', u_password_hash = ''h:pw'',
         u_permissions = ''admin,root, read''\<rparr> ''admin''"
    by (simp add: has_permission_def)
  show ?thesis
    using register_permissions_verbatim [OF a1 a2 a3, of "''admin,root, read''" "\<lambda>p. ''h:'' @ p"]
      register_permissions_verbatim [OF b1 a2 b3, of "''x''" "\<lambda>p. ''h:'' @ p"]
      a4 b4 n u p
    by simp
qed

subsection \<open>Login failures\<close>

text \<open>
  Claim C6. A login with a username that no user has and a login with a known username
  and a password that \<open>check_password_hash\<close> rejects get the same response, 401
  ``Invalid credentials'', and leave the session as it was.
\<close>

theorem login_failure_indistinguishable:
  assumes "dict_lookup (get_json b1) ''username'' = Some (JStr n1)"
    and "find (\<lambda>u. u_username u = n1) (users d) = None"
    and "dict_lookup (get_json b2) ''username'' = Some (JStr n2)"
    and "find (\<lambda>u. u_username u = n2) (users d) = Some u"
    and "dict_lookup (get_json b2) ''password'' = Some (JStr pw)"
    and "\<not> cph (u_password_hash u) pw"
  shows "login cph sess d b1 = (ErrorJson 401 ''Invalid credentials'', sess)
       \<and> login cph sess d b2 = (ErrorJson 401 ''Invalid credentials'', sess)
       \<and> login cph sess d b1 = login cph sess d b2"
  using assms by (simp add: login_def Let_def User_filter_by_username_def)

theorem login_failure_indistinguishable_witness:
  "login (\<lambda>h p. h = ''h'' @ p) no_session ex_db
       [(''username'', JStr ''nobody''), (''password'', JStr ''1'')]
     = (ErrorJson 401 ''Invalid credentials'', no_session)
   \<and> login (\<lambda>h p. h = ''h'' @ p) no_session ex_db
       [(''username'', JStr ''admin''), (''password'', JStr ''2'')]
     = (ErrorJson 401 ''Invalid credentials'', no_session)
   \<and> fst (login (\<lambda>h p. h = ''h'' @ p) no_session ex_db
       [(''username'', JStr ''admin''), (''password'', JStr ''1'')])
     = UserJson 200 ''Logged in successfully'' (user_data ex_admin)"
proof -
  let ?b1 = "[(''username'', JStr ''nobody''), (''password'', JStr ''1'')]"
  let ?b2 = "[(''username'', JStr ''admin''), (''password'', JStr ''2'')]"
  let ?cph = "\<lambda>h p. h = ''h'' @ p"
  have a1: "dict_lookup (get_json ?b1) ''username'' = Some (JStr ''nobody'')"
    by (simp add: get_json_def dict_lookup_def)
  have a2: "find (\<lambda>u. u_username u = ''nobody'') (users ex_db) = None"
    by (simp add: ex_defs)
  have a3: "dict_lookup (get_json ?b2) ''username'' = Some (JStr ''admin'')"
    by (simp add: get_json_def dict_lookup_def)
  have a4: "find (\<lambda>u. u_username u = ''admin'') (users ex_db) = Some ex_admin"
    by (simp add: ex_defs)
  have a5: "dict_lookup (get_json ?b2) ''password'' = Some (JStr ''2'')"
    by (simp add: get_json_def dict_lookup_def)
  have a6: "\<not> ?cph (u_password_hash ex_admin) ''2''"
    by (simp add: ex_defs)
  have ok: "fst (login ?cph no_session ex_db
       [(''username'', JStr ''admin''), (''password'', JStr ''1'')])
     = UserJson 200 ''Logged in successfully'' (user_data ex_admin)"
    using a4 by (simp add: login_def Let_def User_filter_by_username_def get_json_def
        dict_lookup_def ex_admin_def)
  show ?thesis
    using login_failure_indistinguishable [of ?b1 "''nobody''" ex_db ?b2 "''admin''" ex_admin
        "''2''" ?cph no_session, OF a1 a2 a3 a4 a5 a6] ok
    by simp
qed

subsection \<open>Logout\<close>

text \<open>
  Claim C7, as the specification states it, fails on the code: \<open>logout\<close> clears the
  session of its own request and records nothing in the database, so a later request
  that presents the session as it was before the logout is served as before. Here the
  administrator logs out, and the prior session still lists and deletes.
\<close>

theorem logout_prior_session_counterexample:
  "logout (session_of ex_admin) = (MessageJson ''Logged out successfully'', no_session)
   \<and> get_persons (session_of ex_admin) ex_db
     = (PersonsJson [person_data ex_ann, person_data ex_bo, person_data ex_cy], ex_db)
   \<and> delete_person (session_of ex_admin) ex_db 2
     = (MessageJson ''Person deleted successfully'', ex_db\<lparr>persons := [ex_ann, ex_cy]\<rparr>)"
  by code_simp

text \<open>
  Claim C7, amended. \<open>logout\<close> answers with its message for every session, clears it,
  and does the same on a cleared session; with the session that \<open>logout\<close> leaves, each
  of the five decorated routes answers 401 ``Authentication required'' and leaves the
  database unchanged.
\<close>

theorem logout_ends_session:
  "fst (logout sess) = MessageJson ''Logged out successfully''
   \<and> logout (snd (logout sess)) = logout sess
   \<and> logout no_session = (MessageJson ''Logged out successfully'', no_session)
   \<and> get_persons (snd (logout sess)) d = (ErrorJson 401 ''Authentication required'', d)
   \<and> get_person (snd (logout sess)) d pid = (ErrorJson 401 ''Authentication required'', d)
   \<and> create_person (snd (logout sess)) d body = (ErrorJson 401 ''Authentication required'', d)
   \<and> update_person (snd (logout sess)) d pid body
        = (ErrorJson 401 ''Authentication required'', d)
   \<and> delete_person (snd (logout sess)) d pid = (ErrorJson 401 ''Authentication required'', d)"
  by (simp add: logout_def no_session_def get_persons_def get_person_def create_person_def
      update_person_def delete_person_def permission_required_def)

theorem logout_ends_session_witness:
  "get_persons (session_of ex_admin) ex_db
     = (PersonsJson (map person_data [ex_ann, ex_bo, ex_cy]), ex_db)
   \<and> get_persons (snd (logout (session_of ex_admin))) ex_db
     = (ErrorJson 401 ''Authentication required'', ex_db)
   \<and> delete_person (snd (logout (session_of ex_admin))) ex_db 1
     = (ErrorJson 401 ''Authentication required'', ex_db)"
proof -
  have "get_persons (session_of ex_admin) ex_db
     = (PersonsJson (map person_data [ex_ann, ex_bo, ex_cy]), ex_db)"
    by (simp add: get_persons_def permission_required_def ex_defs User_query_get_def
        has_permission_def READ_PERMISSION_def get_persons_view_def)
  then show ?thesis
    using logout_ends_session [of "session_of ex_admin" ex_db 1 "[]"] by simp
qed

subsection \<open>The session snapshot is not consulted\<close>

lemma not_creator_nor_admin_session:
  "s_user_id sess' = s_user_id sess \<Longrightarrow>
   not_creator_nor_admin sess' d r = not_creator_nor_admin sess d r"
  by (simp add: not_creator_nor_admin_def)

lemma views_session:
  assumes "s_user_id sess' = s_user_id sess"
  shows "get_persons_view sess' d u = get_persons_view sess d u"
    and "get_person_view sess' d pid = get_person_view sess d pid"
    and "create_person_view sess' d body = create_person_view sess d body"
    and "update_person_view sess' d a = update_person_view sess d a"
    and "delete_person_view sess' d pid = delete_person_view sess d pid"
  unfolding get_persons_view_def get_person_view_def create_person_view_def
    update_person_view_def delete_person_view_def
    not_creator_nor_admin_session [OF assms] assms
  by (rule refl)+

lemma permission_required_session:
  assumes "s_user_id sess' = s_user_id sess" and "f sess' d a = f sess d a"
  shows "permission_required P f sess' d a = permission_required P f sess d a"
  using assms by (simp add: permission_required_def split: option.splits)

text \<open>
  Claim C10. The decorated routes read the session only for its \<open>user_id\<close>: two
  sessions with the same \<open>user_id\<close> get the same answer and the same database, whatever
  their \<open>permissions\<close> snapshots are; and the decorator decides by the permissions of
  the row that \<open>User.query.get\<close> finds in the database of the request.
\<close>

theorem authorization_from_stored_permissions:
  assumes "s_user_id sess' = s_user_id sess"
  shows "get_persons sess' d = get_persons sess d
       \<and> get_person sess' d pid = get_person sess d pid
       \<and> create_person sess' d body = create_person sess d body
       \<and> update_person sess' d pid body = update_person sess d pid body
       \<and> delete_person sess' d pid = delete_person sess d pid
       \<and> (s_user_id sess = Some uid \<and> uid \<noteq> 0 \<and> User_query_get d uid = Some u \<longrightarrow>
            permission_required P f sess d a =
              (if has_permission u P then f sess d a
               else (ErrorJson 403 (''Permission denied. Requires: '' @ P), d)))"
proof (intro conjI impI)
  show "get_persons sess' d = get_persons sess d"
    unfolding get_persons_def
    by (rule permission_required_session [OF assms views_session(1) [OF assms]])
  show "get_person sess' d pid = get_person sess d pid"
    unfolding get_person_def
    by (rule permission_required_session [OF assms views_session(2) [OF assms]])
  show "create_person sess' d body = create_person sess d body"
    unfolding create_person_def
    by (rule permission_required_session [OF assms views_session(3) [OF assms]])
  show "update_person sess' d pid body = update_person sess d pid body"
    unfolding update_person_def
    by (rule permission_required_session [OF assms views_session(4) [OF assms]])
  show "delete_person sess' d pid = delete_person sess d pid"
    unfolding delete_person_def
    by (rule permission_required_session [OF assms views_session(5) [OF assms]])
next
  assume "s_user_id sess = Some uid \<and> uid \<noteq> 0 \<and> User_query_get d uid = Some u"
  then show "permission_required P f sess d a =
      (if has_permission u P then f sess d a
       else (ErrorJson 403 (''Permission denied. Requires: '' @ P), d))"
    by (simp add: permission_required_def)
qed

theorem authorization_from_stored_permissions_witness:
  "s_permissions (session_of ex_u3) = Some ''read,create,update,delete''
   \<and> delete_person (session_of ex_u3)
        (ex_db\<lparr>users := [ex_admin, ex_u2, ex_u3\<lparr>u_permissions := ''read''\<rparr>, ex_u4]\<rparr>) 2
      = (ErrorJson 403 ''Permission denied. Requires: delete'',
         ex_db\<lparr>users := [ex_admin, ex_u2, ex_u3\<lparr>u_permissions := ''read''\<rparr>, ex_u4]\<rparr>)
   \<and> delete_person ((session_of ex_u3)\<lparr>s_permissions := Some ''read''\<rparr>) ex_db 2
      = delete_person (session_of ex_u3) ex_db 2
   \<and> delete_person (session_of ex_u3) ex_db 2
      = (MessageJson ''Person deleted successfully'', ex_db\<lparr>persons := [ex_ann, ex_cy]\<rparr>)"
proof -
  let ?d = "ex_db\<lparr>users := [ex_admin, ex_u2, ex_u3\<lparr>u_permissions := ''read''\<rparr>, ex_u4]\<rparr>"
  let ?s = "(session_of ex_u3)\<lparr>s_permissions := Some ''read''\<rparr>"
  have h: "s_user_id ?s = s_user_id (session_of ex_u3)" by simp
  have s: "s_user_id (session_of ex_u3) = Some 3 \<and> (3::int) \<noteq> 0
      \<and> User_query_get ?d 3 = Some (ex_u3\<lparr>u_permissions := ''read''\<rparr>)"
    by (simp add: ex_defs User_query_get_def)
  have n: "\<not> has_permission (ex_u3\<lparr>u_permissions := ''read''\<rparr>) DELETE_PERMISSION"
    by (simp add: has_permission_def DELETE_PERMISSION_def)
  have snap: "s_permissions (session_of ex_u3) = Some ''read,create,update,delete''"
    by (simp add: ex_defs)
  have ok: "delete_person (session_of ex_u3) ex_db 2
      = (MessageJson ''Person deleted successfully'', ex_db\<lparr>persons := [ex_ann, ex_cy]\<rparr>)"
    by (simp add: delete_person_def permission_required_def delete_person_view_def
        not_creator_nor_admin_def Person_query_get_def User_query_get_def has_permission_def
        DELETE_PERMISSION_def ex_defs)
  show ?thesis
    using authorization_from_stored_permissions [OF h, of ex_db 2 "[]" 3 ex_u3 "''x''"
        get_persons_view "()"]
      authorization_from_stored_permissions [OF refl, of "session_of ex_u3" ?d 2 "[]" 3
        "ex_u3\<lparr>u_permissions := ''read''\<rparr>" DELETE_PERMISSION delete_person_view 2]
      s n snap ok
    by (simp add: delete_person_def DELETE_PERMISSION_def)
qed

subsection \<open>What a route does to the tables\<close>

lemma int_not_null_Row: "int_not_null v = Row n \<longleftrightarrow> v = Some (JInt n)"
  by (auto simp: int_not_null_def split: option.splits json.splits)

lemma str_not_null_Row: "str_not_null v = Row s \<longleftrightarrow> v = Some (JStr s)"
  by (auto simp: str_not_null_def split: option.splits json.splits)

lemma int_nullable_Row:
  "int_nullable v = Row n \<longleftrightarrow>
     (case v of Some (JInt i) \<Rightarrow> n = Some i | Some (JStr _) \<Rightarrow> False | _ \<Rightarrow> n = None)"
  by (auto simp: int_nullable_def split: option.splits json.splits)

lemma person_row_cases:
  assumes "person_row obj = Row r"
  shows "int_not_null (obj ''id'') = Row (p_id r)"
    and "str_not_null (obj ''name'') = Row (p_name r)"
    and "int_not_null (obj ''age'') = Row (p_age r)"
    and "str_not_null (obj ''email'') = Row (p_email r)"
    and "int_nullable (obj ''created_by'') = Row (p_created_by r)"
proof -
  from assms have b: "list_all (\<lambda>c. bindable (obj c)) person_columns"
    by (simp add: person_row_def split: if_splits)
  from assms show "int_not_null (obj ''id'') = Row (p_id r)"
    and "str_not_null (obj ''name'') = Row (p_name r)"
    and "int_not_null (obj ''age'') = Row (p_age r)"
    and "str_not_null (obj ''email'') = Row (p_email r)"
    and "int_nullable (obj ''created_by'') = Row (p_created_by r)"
    using b by (auto simp: person_row_def split: flushed.splits)
qed

lemma person_row_Row:
  assumes "person_row obj = Row r"
  shows "obj ''id'' = Some (JInt (p_id r))"
    and "obj ''name'' = Some (JStr (p_name r))"
    and "obj ''age'' = Some (JInt (p_age r))"
    and "obj ''email'' = Some (JStr (p_email r))"
    and "int_nullable (obj ''created_by'') = Row (p_created_by r)"
  using person_row_cases [OF assms]
  by (simp_all add: int_not_null_Row str_not_null_Row)





lemma create_person_view_result:
  assumes "create_person_view sess d body = (resp, d')"
  shows "(d' = d \<and> \<not> succeeded resp)
       \<or> (\<exists>r. d' = d\<lparr>persons := persons d @ [r]\<rparr>
             \<and> resp = PersonMessageJson 201 ''Person created successfully'' (person_data r)
             \<and> \<not> violates_unique (persons d) r
             \<and> int_nullable (Some (opt_int (s_user_id sess))) = Row (p_created_by r)
             \<and> dict_lookup (get_json body) ''name'' = Some (JStr (p_name r))
             \<and> dict_lookup (get_json body) ''age'' = Some (JInt (p_age r))
             \<and> dict_lookup (get_json body) ''email'' = Some (JStr (p_email r)))"
proof (cases "succeeded resp")
  case False
  with assms have "d' = d"
    by (auto simp: create_person_view_def Let_def commit_insert_def
        split: option.splits query_result.splits flushed.splits if_splits)
  with False show ?thesis by simp
next
  case True
  with assms obtain name age email r where
    l: "dict_lookup (get_json body) ''email'' = Some email"
       "dict_lookup (get_json body) ''name'' = Some name"
       "dict_lookup (get_json body) ''age'' = Some age"
    and c: "commit_insert d
         [''id'' \<mapsto> JNull, ''name'' \<mapsto> name, ''age'' \<mapsto> age, ''email'' \<mapsto> email,
          ''phone'' \<mapsto> dict_get (get_json body) ''phone'' JNull,
          ''address'' \<mapsto> dict_get (get_json body) ''address'' JNull,
          ''created_by'' \<mapsto> opt_int (s_user_id sess)] = Row (d', r)"
    and r: "resp = PersonMessageJson 201 ''Person created successfully'' (person_data r)"
    by (auto simp: create_person_view_def Let_def
        split: option.splits query_result.splits flushed.splits)
  from c obtain
    row: "person_row
         ([''id'' \<mapsto> JNull, ''name'' \<mapsto> name, ''age'' \<mapsto> age, ''email'' \<mapsto> email,
          ''phone'' \<mapsto> dict_get (get_json body) ''phone'' JNull,
          ''address'' \<mapsto> dict_get (get_json body) ''address'' JNull,
          ''created_by'' \<mapsto> opt_int (s_user_id sess)]
          (''id'' \<mapsto> JInt (next_rowid (map p_id (persons d))))) = Row r"
    and u: "\<not> violates_unique (persons d) r" and d': "d' = d\<lparr>persons := persons d @ [r]\<rparr>"
    by (auto simp: commit_insert_def split: flushed.splits if_splits)
  from person_row_Row [OF row] l r u d' show ?thesis by auto
qed



lemma permission_required_result:
  "permission_required P f sess d a = (resp, d') \<Longrightarrow>
   (d' = d \<and> \<not> succeeded resp) \<or> f sess d a = (resp, d')"
  by (auto simp: permission_required_def split: option.splits if_splits)

subsection \<open>The keys of the Person table stay unique\<close>










subsection \<open>Emails are unique\<close>





subsection \<open>Failed requests and the age column\<close>

lemma create_person_result:
  assumes "create_person sess d body = (resp, d')"
  shows "(d' = d \<and> \<not> succeeded resp)
       \<or> (\<exists>r. d' = d\<lparr>persons := persons d @ [r]\<rparr>
             \<and> resp = PersonMessageJson 201 ''Person created successfully'' (person_data r)
             \<and> \<not> violates_unique (persons d) r
             \<and> int_nullable (Some (opt_int (s_user_id sess))) = Row (p_created_by r)
             \<and> dict_lookup (get_json body) ''name'' = Some (JStr (p_name r))
             \<and> dict_lookup (get_json body) ''age'' = Some (JInt (p_age r))
             \<and> dict_lookup (get_json body) ''email'' = Some (JStr (p_email r)))"
  using permission_required_result [of CREATE_PERMISSION create_person_view sess d body resp d']
    create_person_view_result [of sess d body resp d'] assms
  by (auto simp: create_person_def)






subsection \<open>Who created a person\<close>

lemma create_person_stamps_creator:
  assumes "create_person sess d body = (resp, d')" and "succeeded resp"
  shows "\<exists>r. persons d' = persons d @ [r] \<and> p_created_by r = s_user_id sess"
proof -
  from create_person_result [OF assms(1)] assms(2) obtain r where
    "d' = d\<lparr>persons := persons d @ [r]\<rparr>"
    and "int_nullable (Some (opt_int (s_user_id sess))) = Row (p_created_by r)"
    by auto
  then show ?thesis
    by (cases "s_user_id sess") (auto simp: int_nullable_def opt_int_def)
qed

text \<open>
  Claim C3 at two bodies that name \<open>created_by\<close> and \<open>id\<close>. \<open>create_person\<close>
  ignores both: the row gets the key of the table and the creator of the session.
  \<open>update_person\<close> by the creator of person 2 passes both to \<open>setattr\<close>: the row is
  stored with key 9 and creator 1, after the row with key 3.
\<close>

theorem update_overwrites_id_and_creator:
  "create_person (session_of ex_u2) ex_db
       [(''name'', JStr ''Eli''), (''age'', JInt 7), (''email'', JStr ''eli@x.com''),
        (''created_by'', JInt 1), (''id'', JInt 50)]
     = (PersonMessageJson 201 ''Person created successfully'' (person_data ex_eli),
        ex_db\<lparr>persons := [ex_ann, ex_bo, ex_cy, ex_eli]\<rparr>)
   \<and> update_person (session_of ex_u3) ex_db 2 [(''created_by'', JInt 1), (''id'', JInt 9)]
     = (PersonMessageJson 200 ''Person updated successfully''
          (person_data (ex_bo\<lparr>p_id := 9, p_created_by := Some 1\<rparr>)),
        ex_db\<lparr>persons := [ex_ann, ex_cy, ex_bo\<lparr>p_id := 9, p_created_by := Some 1\<rparr>]\<rparr>)"
  by code_simp

end
